theory Spec2Isabelle
  imports Complex_Main
begin

section \<open>Exceptions\<close>

text \<open>
  The exceptions that the modelled code raises or lets through. A call that can raise
  returns \<open>exn + 'a\<close>: \<open>Inl e\<close> when it raised \<open>e\<close>, \<open>Inr v\<close> when it returned \<open>v\<close>.
  \<open>RequestError\<close> is httpx's transport error (connection, timeout, ...), with its text;
  \<open>OtherError\<close> stands for any exception of another class, with its text.
\<close>

datatype exn =
    RequestError string
  | RuntimeError
  | OverflowError
  | OtherError string

section \<open>core/http\_client.py: the retrying request\<close>

text \<open>
  \<open>HttpClient._request_with_retry\<close>. The only field of the httpx response that the
  loop reads is \<open>status_code\<close>; the body is kept so that two responses can be told apart.
  The network is a script: \<open>transport k\<close> is what the \<open>k\<close>-th call (counted from 0) of
  \<open>self.client.request(method, url, **kwargs)\<close> does, either returning a response or
  raising. \<open>retries\<close> is a Python \<open>int\<close>, so it may be negative.

  The effects of the call are recorded in \<open>retry_run\<close>: the result (returned response or
  propagated exception), the arguments of the successive \<open>asyncio.sleep\<close> calls in
  seconds, and the number of calls of \<open>client.request\<close>.
\<close>

record http_response =
  status_code :: int
  body :: string

record retry_run =
  outcome :: "exn + http_response"
  sleeps :: "real list"
  attempts :: nat

text \<open>
  The argument of \<open>asyncio.sleep\<close>: \<open>0.1 * (2 ** attempt)\<close>. \<open>delay\<close> is its value.
  The product converts the integer \<open>2 ** attempt\<close> to a float, which raises
  \<open>OverflowError\<close> (int too large to convert to float) from \<open>attempt = 1024\<close> on;
  \<open>backoff\<close> is the computation with that outcome. Below 1024 the value is taken
  as the exact real.
\<close>

definition delay :: "nat \<Rightarrow> real" where
  "delay attempt = 0.1 * 2 ^ attempt"

definition backoff :: "nat \<Rightarrow> exn + real" where
  "backoff attempt = (if 1024 \<le> attempt then Inl OverflowError else Inr (delay attempt))"

text \<open>
  The body of \<open>for attempt in range(self.retries + 1)\<close>, entered at \<open>attempt\<close> with the
  sleeps made so far and the current \<open>last_exception\<close>. An exception that is not a
  \<open>httpx.RequestError\<close> is not caught by the \<open>except\<close> clause and leaves the function at
  once; so does the \<open>OverflowError\<close> of the delay computation, which is raised inside
  the \<open>try\<close> block on a 5xx response (line 52) and inside the \<open>except\<close> clause on a
  transport error (line 59). When the range is exhausted the code after the loop runs.
\<close>

function request_loop ::
  "int \<Rightarrow> (nat \<Rightarrow> exn + http_response) \<Rightarrow> nat \<Rightarrow> exn option \<Rightarrow> real list \<Rightarrow> retry_run"
where
  "request_loop retries transport attempt last_exception slept =
    (if int attempt < retries + 1 then
       (case transport attempt of
          Inr response \<Rightarrow>
            if status_code response \<ge> 500 \<and> int attempt < retries then
              (case backoff attempt of
                 Inl overflow \<Rightarrow>
                   \<lparr>outcome = Inl overflow, sleeps = slept, attempts = Suc attempt\<rparr>
               | Inr seconds_to_sleep \<Rightarrow>
                   request_loop retries transport (Suc attempt) last_exception
                     (slept @ [seconds_to_sleep]))
            else
              \<lparr>outcome = Inr response, sleeps = slept, attempts = Suc attempt\<rparr>
        | Inl (RequestError e) \<Rightarrow>
            if int attempt < retries then
              (case backoff attempt of
                 Inl overflow \<Rightarrow>
                   \<lparr>outcome = Inl overflow, sleeps = slept, attempts = Suc attempt\<rparr>
               | Inr seconds_to_sleep \<Rightarrow>
                   request_loop retries transport (Suc attempt) (Some (RequestError e))
                     (slept @ [seconds_to_sleep]))
            else
              \<lparr>outcome = Inl (RequestError e), sleeps = slept, attempts = Suc attempt\<rparr>
        | Inl e \<Rightarrow>
            \<lparr>outcome = Inl e, sleeps = slept, attempts = Suc attempt\<rparr>)
     else
       (case last_exception of
          Some e \<Rightarrow> \<lparr>outcome = Inl e, sleeps = slept, attempts = attempt\<rparr>
        | None \<Rightarrow> \<lparr>outcome = Inl RuntimeError, sleeps = slept, attempts = attempt\<rparr>))"
  by pat_completeness auto
termination
  by (relation "measure (\<lambda>(retries, transport, attempt, last_exception, slept).
        nat (retries + 1 - int attempt))") auto

definition request_with_retry :: "int \<Rightarrow> (nat \<Rightarrow> exn + http_response) \<Rightarrow> retry_run" where
  "request_with_retry retries transport = request_loop retries transport 0 None []"

text \<open>An attempt after which the loop goes round again, if attempts remain.\<close>

fun retryable :: "exn + http_response \<Rightarrow> bool" where
  "retryable (Inr response) = (status_code response \<ge> 500)"
| "retryable (Inl (RequestError e)) = True"
| "retryable (Inl _) = False"

section \<open>Python's naive datetime and timedelta\<close>

text \<open>
  \<open>datetime.now()\<close> returns a naive \<open>datetime\<close>: the seven fields below, within the
  ranges the constructor enforces (\<open>valid_datetime\<close>). The clock reading is an input of
  every operation that calls \<open>datetime.now()\<close>.
\<close>

record datetime =
  year :: int
  month :: int
  day :: int
  hour :: int
  minute :: int
  second :: int
  microsecond :: int

definition is_leap :: "int \<Rightarrow> bool" where
  "is_leap y = (y mod 4 = 0 \<and> (y mod 100 \<noteq> 0 \<or> y mod 400 = 0))"

definition DAYS_IN_MONTH :: "int list" where
  "DAYS_IN_MONTH = [-1, 31, 28, 31, 30, 31, 30, 31, 31, 30, 31, 30, 31]"

definition DAYS_BEFORE_MONTH :: "int list" where
  "DAYS_BEFORE_MONTH = [-1, 0, 31, 59, 90, 120, 151, 181, 212, 243, 273, 304, 334]"

definition days_before_year :: "int \<Rightarrow> int" where
  "days_before_year y = (let p = y - 1 in p * 365 + p div 4 - p div 100 + p div 400)"

definition days_in_month :: "int \<Rightarrow> int \<Rightarrow> int" where
  "days_in_month y m = (if m = 2 \<and> is_leap y then 29 else DAYS_IN_MONTH ! nat m)"

definition days_before_month :: "int \<Rightarrow> int \<Rightarrow> int" where
  "days_before_month y m =
     DAYS_BEFORE_MONTH ! nat m + (if m > 2 \<and> is_leap y then 1 else 0)"

definition valid_datetime :: "datetime \<Rightarrow> bool" where
  "valid_datetime d =
     (1 \<le> year d \<and> year d \<le> 9999 \<and> 1 \<le> month d \<and> month d \<le> 12 \<and>
      1 \<le> day d \<and> day d \<le> days_in_month (year d) (month d) \<and>
      0 \<le> hour d \<and> hour d < 24 \<and> 0 \<le> minute d \<and> minute d < 60 \<and>
      0 \<le> second d \<and> second d < 60 \<and> 0 \<le> microsecond d \<and> microsecond d < 1000000)"

text \<open>
  The proleptic Gregorian ordinal of a date (1 for 0001-01-01) and back, as the standard
  library computes them (\<open>_ymd2ord\<close>, \<open>_ord2ymd\<close>). Python's \<open>//\<close> and \<open>%\<close> round
  towards minus infinity, as \<open>div\<close> and \<open>mod\<close> on \<open>int\<close> do. The month tables are read
  at months 1 to 12 only.
\<close>

definition ymd2ord :: "int \<Rightarrow> int \<Rightarrow> int \<Rightarrow> int" where
  "ymd2ord y m d = days_before_year y + days_before_month y m + d"

definition ord2ymd :: "int \<Rightarrow> int \<times> int \<times> int" where
  "ord2ymd ordinal =
     (let n = ordinal - 1;
          n400 = n div 146097; n = n mod 146097;
          n100 = n div 36524; n = n mod 36524;
          n4 = n div 1461; n = n mod 1461;
          n1 = n div 365; n = n mod 365;
          y = n400 * 400 + 1 + n100 * 100 + n4 * 4 + n1
      in if n1 = 4 \<or> n100 = 4 then (y - 1, 12, 31)
         else
           let leapyear = (n1 = 3 \<and> (n4 \<noteq> 24 \<or> n100 = 3));
               m = (n + 50) div 32;
               preceding = DAYS_BEFORE_MONTH ! nat m + (if m > 2 \<and> leapyear then 1 else 0)
           in if preceding > n then
                (y, m - 1,
                 n - (preceding - (DAYS_IN_MONTH ! nat (m - 1)
                        + (if m - 1 = 2 \<and> leapyear then 1 else 0))) + 1)
              else (y, m, n - preceding + 1))"

text \<open>
  A \<open>timedelta\<close> is kept normalised: \<open>0 \<le> seconds < 86400\<close>,
  \<open>0 \<le> microseconds < 1000000\<close>, and the constructor raises \<open>OverflowError\<close> when the
  number of days exceeds 999999999 in magnitude. \<open>timedelta_new\<close> is the constructor
  called with integer \<open>days\<close>, \<open>seconds\<close>, \<open>microseconds\<close>, \<open>minutes\<close> and \<open>hours\<close>.
\<close>

record timedelta =
  days :: int
  seconds :: int
  microseconds :: int

definition timedelta_new :: "int \<Rightarrow> int \<Rightarrow> int \<Rightarrow> int \<Rightarrow> int \<Rightarrow> exn + timedelta" where
  "timedelta_new d s us mi h =
     (let whole = us + 1000000 * (s + 60 * mi + 3600 * h + 86400 * d);
          dd = whole div 86400000000;
          r = whole mod 86400000000
      in if \<bar>dd\<bar> > 999999999 then Inl OverflowError
         else Inr \<lparr>days = dd, seconds = r div 1000000, microseconds = r mod 1000000\<rparr>)"

text \<open>\<open>timedelta.total_seconds()\<close>; the float division is taken as exact.\<close>

definition total_seconds :: "timedelta \<Rightarrow> real" where
  "total_seconds td =
     real_of_int ((days td * 86400 + seconds td) * 1000000 + microseconds td) / 1000000"

text \<open>
  \<open>datetime + timedelta\<close> (\<open>datetime.__add__\<close>): the sum is formed as a timedelta counted
  from ordinal 0 and converted back; a result outside the years 1 to 9999 raises
  \<open>OverflowError\<close>.
\<close>

definition datetime_add :: "datetime \<Rightarrow> timedelta \<Rightarrow> exn + datetime" where
  "datetime_add dt other =
     (case timedelta_new (ymd2ord (year dt) (month dt) (day dt)) (second dt)
             (microsecond dt) (minute dt) (hour dt) of
        Inl e \<Rightarrow> Inl e
      | Inr delta \<Rightarrow>
          (case timedelta_new (days delta + days other) (seconds delta + seconds other)
                  (microseconds delta + microseconds other) 0 0 of
             Inl e \<Rightarrow> Inl e
           | Inr whole \<Rightarrow>
               if 0 < days whole \<and> days whole \<le> 3652059 then
                 (case ord2ymd (days whole) of
                    (y, m, d) \<Rightarrow>
                      Inr \<lparr>year = y, month = m, day = d,
                           hour = seconds whole div 3600,
                           minute = seconds whole mod 3600 div 60,
                           second = seconds whole mod 3600 mod 60,
                           microsecond = microseconds whole\<rparr>)
               else Inl OverflowError))"


text \<open>
  Formatting. \<open>digits n\<close> is the decimal numeral of \<open>n\<close>; \<open>zfill w n\<close> is Python's
  \<open>"%0wd" % n\<close> for \<open>n \<ge> 0\<close>: at least \<open>w\<close> characters, padded with zeros on the left,
  never truncated.
\<close>

definition digit_char :: "nat \<Rightarrow> char" where
  "digit_char d = ''0123456789'' ! d"

fun digits :: "nat \<Rightarrow> string" where
  "digits n = (if n < 10 then [digit_char n] else digits (n div 10) @ [digit_char (n mod 10)])"

definition zfill :: "nat \<Rightarrow> int \<Rightarrow> string" where
  "zfill w n = (let s = digits (nat n) in replicate (w - length s) CHR ''0'' @ s)"

text \<open>
  \<open>dt.strftime("%Y-%m-%d %H:%M:%S")\<close>, the default of \<open>created_time\<close> and
  \<open>updated_time\<close> in \<open>Base\<close>. (For years below 1000 the width of \<open>%Y\<close> depends on the
  platform's C library; the model pads to four digits.)
\<close>

definition strftime_default :: "datetime \<Rightarrow> string" where
  "strftime_default dt =
     zfill 4 (year dt) @ ''-'' @ zfill 2 (month dt) @ ''-'' @ zfill 2 (day dt) @ '' '' @
     zfill 2 (hour dt) @ '':'' @ zfill 2 (minute dt) @ '':'' @ zfill 2 (second dt)"

text \<open>
  \<open>str(dt)\<close> of a naive datetime is \<open>dt.isoformat(sep=' ')\<close>: the same nineteen
  characters, followed by a dot and six digits of microseconds when
  \<open>dt.microsecond\<close> is not zero.
\<close>

definition str_datetime :: "datetime \<Rightarrow> string" where
  "str_datetime dt =
     zfill 4 (year dt) @ ''-'' @ zfill 2 (month dt) @ ''-'' @ zfill 2 (day dt) @ '' '' @
     zfill 2 (hour dt) @ '':'' @ zfill 2 (minute dt) @ '':'' @ zfill 2 (second dt) @
     (if microsecond dt \<noteq> 0 then ''.'' @ zfill 6 (microsecond dt) else [])"

text \<open>
  The timestamp format \<open>YYYY-MM-DD HH:MM:SS\<close>: a string matches a pattern when it has
  the pattern's length, a decimal digit wherever the pattern has \<open>d\<close>, and the pattern's
  own character elsewhere.
\<close>

definition is_digit :: "char \<Rightarrow> bool" where
  "is_digit c = (c \<in> set ''0123456789'')"

fun matches_pattern :: "string \<Rightarrow> string \<Rightarrow> bool" where
  "matches_pattern [] [] = True"
| "matches_pattern (p # ps) (c # cs) =
     ((if p = CHR ''d'' then is_digit c else c = p) \<and> matches_pattern ps cs)"
| "matches_pattern _ _ = False"

definition is_timestamp :: "string \<Rightarrow> bool" where
  "is_timestamp s = matches_pattern ''dddd-dd-dd dd:dd:dd'' s"

section \<open>core/base.py: the data model\<close>

text \<open>
  \<open>Base\<close> and \<open>User\<close>: the primary key (the field \<open>id\<close>, here \<open>user_id\<close>, as \<open>id\<close>
  is the identity function of HOL) is \<open>None\<close> until the database assigns it;
  \<open>created_time\<close> and \<open>updated_time\<close> are strings. \<open>JWTPayloadSchema\<close> and
  \<open>JWTOutSchema\<close> as declared; \<open>expires_in\<close> is a float, taken as a real.
\<close>

record User =
  user_id :: "int option"
  created_time :: string
  updated_time :: string
  name :: string
  username :: string
  password :: string
  status :: bool
  description :: "string option"
  is_superuser :: bool

record JWTPayloadSchema =
  sub :: string
  exp :: datetime
  iat :: "datetime option"
  nbf :: "datetime option"
  jti :: "string option"

record JWTOutSchema =
  access_token :: string
  token_type :: string
  expires_in :: real

text \<open>
  The settings of \<open>app/config.py\<close> that the login reads, with their defaults.
\<close>

record Settings =
  ACCESS_TOKEN_EXPIRE_MINUTES :: int
  TOKEN_TYPE :: string

definition default_settings :: Settings where
  "default_settings = \<lparr>ACCESS_TOKEN_EXPIRE_MINUTES = 30, TOKEN_TYPE = ''bearer''\<rparr>"

section \<open>What the user API is given\<close>

text \<open>
  Modelled from the spec: the request schemas of \<open>app/schemas/user.py\<close>, which is not
  among the sources. The spec gives the input schema the fields name, username,
  password and the optional status and description, and the output schema every field of
  the user except the password. An input object carries, as every pydantic model does,
  the set of fields that the request body supplied (\<open>model_fields_set\<close>); a field that
  was not supplied holds the schema's default.
\<close>

datatype field = F_name | F_username | F_password | F_status | F_description

record UserInSchema =
  in_name :: string
  in_username :: string
  in_password :: string
  in_status :: bool
  in_description :: "string option"
  fields_set :: "field set"

record UserOutSchema =
  out_id :: "int option"
  out_created_time :: string
  out_updated_time :: string
  out_name :: string
  out_username :: string
  out_status :: bool
  out_description :: "string option"
  out_is_superuser :: bool

text \<open>
  The functions of \<open>core/security.py\<close>, which is not among the sources, are taken as
  parameters. Each may return or raise.
\<close>

record security =
  set_password_hash :: "string \<Rightarrow> exn + string"
  verify_password :: "string \<Rightarrow> string \<Rightarrow> exn + bool"
  create_access_token :: "JWTPayloadSchema \<Rightarrow> exn + string"

text \<open>
  The messages of the envelopes. The source writes them in Chinese; each constructor is
  one message text of the source, with the values interpolated into it as arguments.
  \<^item> \<open>Msg_user_not_found\<close>: login, logout and detail, user absent (user.py lines 54, 106, 177);
  \<^item> \<open>Msg_user_disabled\<close>: status false (lines 57, 109);
  \<^item> \<open>Msg_wrong_password\<close>: verification failed (line 62);
  \<^item> \<open>Msg_account_exists u\<close>: create, the account \<open>u\<close> exists already (line 151);
  \<^item> \<open>Msg_user_id_not_found i\<close>: update and delete, no user \<open>i\<close> (lines 198, 230);
  \<^item> \<open>Msg_superuser_no_update\<close>: the superuser may not be modified (line 201);
  \<^item> \<open>Msg_superuser_no_delete\<close>: the superuser may not be deleted (line 233);
  \<^item> \<open>Msg_system_exception e\<close>: "system exception: " followed by \<open>str(e)\<close>
    (lines 90, 118, 138, 165, 185, 218, 244);
  \<^item> \<open>Msg_internal_server_error\<close>: "internal server error" (exceptions.py line 146);
  \<^item> \<open>Msg_text s\<close>: a text taken from an exception object (exceptions.py lines 111, 124, 136).
\<close>

datatype message =
    Msg_user_not_found
  | Msg_user_disabled
  | Msg_wrong_password
  | Msg_account_exists string
  | Msg_user_id_not_found int
  | Msg_superuser_no_update
  | Msg_superuser_no_delete
  | Msg_system_exception exn
  | Msg_internal_server_error
  | Msg_text string

text \<open>
  The envelope builders of \<open>core/response.py\<close>, which is not among the sources. A
  response is the builder that was called together with its arguments; an argument that
  the call leaves out is \<open>None\<close>. \<open>Plain\<close> is the dictionary that the login returns
  unwrapped. A handler either returns a response or raises one (\<open>raise ExceptResponse\<close>).
\<close>

datatype payload =
    JWT_data JWTOutSchema
  | User_data UserOutSchema
  | Details "(string \<times> string) list"

datatype response =
    SuccessResponse payload
  | ErrorResponse message "int option" "payload option"
  | ExceptResponse message "int option"
  | Plain JWTOutSchema

datatype reply = Returns response | Raises response

section \<open>The user table\<close>

text \<open>
  The session is the table of users: its rows in storage order.
  \<^item> \<open>db.exec(select(User).where(User.username == u)).first()\<close> is the first row with
    that username;
  \<^item> \<open>db.get(User, i)\<close> is the row with primary key \<open>i\<close>;
  \<^item> committing a changed object writes it over the row with its primary key;
  \<^item> committing a new object appends a row, with the primary key the database assigns;
  \<^item> committing a deleted object removes the row with its primary key.
\<close>

type_synonym session = "User list"

definition first_by_username :: "session \<Rightarrow> string \<Rightarrow> User option" where
  "first_by_username db u = find (\<lambda>row. username row = u) db"

definition db_get :: "session \<Rightarrow> int \<Rightarrow> User option" where
  "db_get db i = find (\<lambda>row. user_id row = Some i) db"

definition db_update :: "session \<Rightarrow> int \<Rightarrow> User \<Rightarrow> session" where
  "db_update db i obj = map (\<lambda>row. if user_id row = Some i then obj else row) db"


definition db_delete :: "session \<Rightarrow> int \<Rightarrow> session" where
  "db_delete db i = filter (\<lambda>row. user_id row \<noteq> Some i) db"

section \<open>services/admin/app/api/user.py: the handlers\<close>


text \<open>\<open>UserOutSchema.model_validate(obj).model_dump()\<close>.\<close>

definition UserOut_model_validate :: "User \<Rightarrow> UserOutSchema" where
  "UserOut_model_validate obj =
     \<lparr>out_id = user_id obj,
      out_created_time = created_time obj,
      out_updated_time = updated_time obj,
      out_name = name obj,
      out_username = username obj,
      out_status = status obj,
      out_description = description obj,
      out_is_superuser = is_superuser obj\<rparr>"

text \<open>
  \<open>existing_obj.sqlmodel_update(data.model_dump(exclude_unset=True))\<close>: the dictionary
  holds the supplied fields only, and each of its entries is assigned to the attribute
  of the same name.
\<close>

definition sqlmodel_update :: "User \<Rightarrow> UserInSchema \<Rightarrow> User" where
  "sqlmodel_update obj data =
     obj\<lparr>name := (if F_name \<in> fields_set data then in_name data else name obj),
         username := (if F_username \<in> fields_set data then in_username data else username obj),
         password := (if F_password \<in> fields_set data then in_password data else password obj),
         status := (if F_status \<in> fields_set data then in_status data else status obj),
         description :=
           (if F_description \<in> fields_set data then in_description data else description obj)\<rparr>"

text \<open>\<open>"docs" in referer\<close>: the substring test.\<close>

fun contains :: "string \<Rightarrow> string \<Rightarrow> bool" where
  "contains [] needle = (needle = [])"
| "contains (c # cs) needle =
     (take (length needle) (c # cs) = needle \<or> contains cs needle)"

text \<open>
  \<open>login\<close>. The inputs are the collaborators, the clock reading of \<open>datetime.now()\<close>,
  the \<open>referer\<close> header (if any), the two form fields and the table. The second
  component of the result lists the tokens that \<open>create_access_token\<close> produced
  during the call. Any exception raised inside the \<open>try\<close> block is re-raised as an
  \<open>ExceptResponse\<close> carrying its text.
\<close>

definition login ::
  "security \<Rightarrow> Settings \<Rightarrow> datetime \<Rightarrow> string option \<Rightarrow> string \<Rightarrow> string \<Rightarrow> session
   \<Rightarrow> reply \<times> string list"
where
  "login sec settings now referer form_username form_password db =
     (case first_by_username db form_username of
        None \<Rightarrow> (Returns (ErrorResponse Msg_user_not_found None None), [])
      | Some existing_obj \<Rightarrow>
          if \<not> status existing_obj then
            (Returns (ErrorResponse Msg_user_disabled None None), [])
          else
            (case verify_password sec form_password (password existing_obj) of
               Inl e \<Rightarrow> (Raises (ExceptResponse (Msg_system_exception e) None), [])
             | Inr False \<Rightarrow> (Returns (ErrorResponse Msg_wrong_password None None), [])
             | Inr True \<Rightarrow>
                 (case timedelta_new 0 0 0 (ACCESS_TOKEN_EXPIRE_MINUTES settings) 0 of
                    Inl e \<Rightarrow> (Raises (ExceptResponse (Msg_system_exception e) None), [])
                  | Inr access_expires \<Rightarrow>
                      (case datetime_add now access_expires of
                         Inl e \<Rightarrow> (Raises (ExceptResponse (Msg_system_exception e) None), [])
                       | Inr expiry \<Rightarrow>
                           (case create_access_token sec
                                   \<lparr>sub = username existing_obj, exp = expiry,
                                    iat = None, nbf = None, jti = None\<rparr> of
                              Inl e \<Rightarrow>
                                (Raises (ExceptResponse (Msg_system_exception e) None), [])
                            | Inr token \<Rightarrow>
                                (let login_token =
                                   \<lparr>access_token = token,
                                    token_type = TOKEN_TYPE settings,
                                    expires_in = total_seconds access_expires\<rparr>
                                 in if contains (case referer of None \<Rightarrow> [] | Some r \<Rightarrow> r)
                                         ''docs''
                                    then (Returns (Plain login_token), [token])
                                    else (Returns (SuccessResponse (JWT_data login_token)),
                                          [token])))))))"


text \<open>\<open>update\<close>, with the clock reading of line 205.\<close>

definition update :: "datetime \<Rightarrow> UserInSchema \<Rightarrow> int \<Rightarrow> session \<Rightarrow> reply \<times> session" where
  "update now data i db =
     (case db_get db i of
        None \<Rightarrow> (Returns (ErrorResponse (Msg_user_id_not_found i) None None), db)
      | Some existing_obj \<Rightarrow>
          if is_superuser existing_obj then
            (Returns (ErrorResponse Msg_superuser_no_update None None), db)
          else
            (let existing_obj = sqlmodel_update existing_obj data;
                 existing_obj = existing_obj\<lparr>updated_time := str_datetime now\<rparr>
             in (Returns (SuccessResponse (User_data (UserOut_model_validate existing_obj))),
                 db_update db i existing_obj)))"

text \<open>\<open>delete\<close>.\<close>

definition delete :: "int \<Rightarrow> session \<Rightarrow> reply \<times> session" where
  "delete i db =
     (case db_get db i of
        None \<Rightarrow> (Returns (ErrorResponse (Msg_user_id_not_found i) None None), db)
      | Some existing_obj \<Rightarrow>
          if is_superuser existing_obj then
            (Returns (ErrorResponse Msg_superuser_no_delete None None), db)
          else
            (Returns (SuccessResponse (User_data (UserOut_model_validate existing_obj))),
             db_delete db i))"

section \<open>core/exceptions.py: the catch-all handler\<close>

text \<open>
  An exception that reaches a handler: its class and \<open>str(exc)\<close>. A log call is its
  level, its text and whether the traceback is attached (\<open>exc_info=True\<close>). The text of
  the catch-all handler's log line is "unhandled exception: " followed by \<open>str(exc)\<close>
  (line 143).
\<close>

record py_exception =
  exc_class :: string
  exc_str :: string

record request =
  req_method :: string
  req_url :: string
  req_headers :: "(string \<times> string) list"

datatype level = INFO | WARNING | ERROR

datatype log_text = Log_unhandled_exception string

record log_call =
  log_level :: level
  log_message :: log_text
  exc_info :: bool

text \<open>
  \<open>general_exception_handler\<close>, installed for \<open>Exception\<close>: the response sent to the
  client and the log calls made.
\<close>

definition general_exception_handler :: "request \<Rightarrow> py_exception \<Rightarrow> response \<times> log_call list" where
  "general_exception_handler req exc =
     (ExceptResponse Msg_internal_server_error (Some 500),
      [\<lparr>log_level = ERROR, log_message = Log_unhandled_exception (exc_str exc),
        exc_info = True\<rparr>])"

section \<open>services/gateway/utils/monitoring.py: trace bookkeeping\<close>

text \<open>
  A \<open>MonitoringContext\<close> is a mutable object that the manager's table and the caller of
  \<open>start_trace\<close> share, so the contexts live in a store: \<open>contexts\<close> holds every context
  created so far, and the address of a context is its index. \<open>active_traces\<close> maps a
  trace id to the address of its context. \<open>summaries\<close> are the lines that \<open>end_trace\<close>
  logs: trace id, duration and tags. An address handed to an operation is the address of
  a created context, that is, below \<open>length (contexts m)\<close>.
\<close>

record MonitoringContext =
  trace_id :: string
  span_id :: string
  start_time :: real
  end_time :: "real option"
  duration :: "real option"
  tags :: "string \<rightharpoonup> string"
  logs :: "(real \<times> string \<times> (string \<times> string) list) list"

record MonitoringManager =
  contexts :: "MonitoringContext list"
  active_traces :: "string \<rightharpoonup> nat"
  summaries :: "(string \<times> real option \<times> (string \<rightharpoonup> string)) list"

text \<open>\<open>MonitoringManager.__init__\<close>.\<close>

definition MonitoringManager_init :: MonitoringManager where
  "MonitoringManager_init = \<lparr>contexts = [], active_traces = Map.empty, summaries = []\<rparr>"

text \<open>
  \<open>MonitoringContext.__init__\<close>. \<open>fresh_trace\<close> and \<open>fresh_span\<close> are the strings that
  the calls of \<open>str(uuid.uuid4())\<close> return, \<open>now\<close> is \<open>time.time()\<close>. In
  \<open>trace_id or str(uuid.uuid4())\<close> both \<open>None\<close> and the empty string count as absent.
\<close>

definition MonitoringContext_init ::
  "string option \<Rightarrow> string \<Rightarrow> string \<Rightarrow> real \<Rightarrow> MonitoringContext"
where
  "MonitoringContext_init tid fresh_trace fresh_span now =
     \<lparr>trace_id = (case tid of None \<Rightarrow> fresh_trace
                   | Some t \<Rightarrow> if t = [] then fresh_trace else t),
      span_id = fresh_span,
      start_time = now,
      end_time = None,
      duration = None,
      tags = Map.empty,
      logs = []\<rparr>"

text \<open>\<open>set_tag\<close>, \<open>log\<close> and \<open>finish\<close> of the context at an address.\<close>

definition set_tag :: "nat \<Rightarrow> string \<Rightarrow> string \<Rightarrow> MonitoringManager \<Rightarrow> MonitoringManager" where
  "set_tag a k v m =
     m\<lparr>contexts := (contexts m)[a := (contexts m ! a)\<lparr>tags := (tags (contexts m ! a))(k \<mapsto> v)\<rparr>]\<rparr>"

definition log_entry ::
  "nat \<Rightarrow> real \<Rightarrow> string \<Rightarrow> (string \<times> string) list \<Rightarrow> MonitoringManager \<Rightarrow> MonitoringManager"
where
  "log_entry a now msg kwargs m =
     m\<lparr>contexts := (contexts m)[a := (contexts m ! a)
         \<lparr>logs := logs (contexts m ! a) @ [(now, msg, kwargs)]\<rparr>]\<rparr>"

definition finish :: "real \<Rightarrow> MonitoringContext \<Rightarrow> MonitoringContext" where
  "finish now c = c\<lparr>end_time := Some now, duration := Some (now - start_time c)\<rparr>"

text \<open>
  \<open>start_trace\<close>: a new context is created and stored under its trace id. The result is
  the address of the new context and the manager after the call.
\<close>

definition start_trace ::
  "string option \<Rightarrow> string \<Rightarrow> string \<Rightarrow> real \<Rightarrow> MonitoringManager \<Rightarrow> nat \<times> MonitoringManager"
where
  "start_trace tid fresh_trace fresh_span now m =
     (let context = MonitoringContext_init tid fresh_trace fresh_span now;
          a = length (contexts m)
      in (a, m\<lparr>contexts := contexts m @ [context],
               active_traces := (active_traces m)(trace_id context \<mapsto> a)\<rparr>))"

text \<open>
  \<open>end_trace\<close>: the context is finished, the entry of its trace id is deleted from the
  table if there is one, and the summary is logged.
\<close>

definition end_trace :: "nat \<Rightarrow> real \<Rightarrow> MonitoringManager \<Rightarrow> MonitoringManager" where
  "end_trace a now m =
     (let context = finish now (contexts m ! a)
      in m\<lparr>contexts := (contexts m)[a := context],
           active_traces :=
             (if trace_id context \<in> dom (active_traces m)
              then (active_traces m)(trace_id context := None)
              else active_traces m),
           summaries := summaries m @ [(trace_id context, duration context, tags context)]\<rparr>)"

text \<open>
  The table is well formed when every key is a non-empty string and its entry points to a
  created context that carries the key as its trace id. The empty manager is well formed
  and the operations keep it so, \<open>str(uuid.uuid4())\<close> being a non-empty string.
\<close>

definition wf_manager :: "MonitoringManager \<Rightarrow> bool" where
  "wf_manager m =
     (\<forall>t a. active_traces m t = Some a \<longrightarrow>
        t \<noteq> [] \<and> a < length (contexts m) \<and> trace_id (contexts m ! a) = t)"

section \<open>Example data\<close>

text \<open>
  A clock reading with microseconds, a table with a superuser and an ordinary user, and
  stand-ins for the security functions: the hash is the reversed password behind a
  marker, a token spells out its payload.
\<close>

definition t0 :: datetime where
  "t0 = \<lparr>year = 2026, month = 11, day = 4, hour = 16, minute = 39, second = 12,
         microsecond = 123456\<rparr>"

definition demo_security :: security where
  "demo_security =
     \<lparr>set_password_hash = (\<lambda>p. Inr (''$demo$'' @ rev p)),
      verify_password = (\<lambda>p h. Inr (h = ''$demo$'' @ rev p)),
      create_access_token = (\<lambda>pl. Inr (sub pl @ ''|'' @ str_datetime (exp pl)))\<rparr>"

definition root_row :: User where
  "root_row =
     \<lparr>user_id = Some 1, created_time = ''2026-01-01 00:00:00'',
      updated_time = ''2026-01-01 00:00:00'', name = ''Root'', username = ''root'',
      password = ''$demo$toor'', status = True, description = None, is_superuser = True\<rparr>"

definition bob_row :: User where
  "bob_row =
     \<lparr>user_id = Some 2, created_time = ''2026-02-03 10:00:00'',
      updated_time = ''2026-02-03 10:00:00'', name = ''Bob'', username = ''bob'',
      password = ''$demo$2retnuh'', status = True, description = Some ''ops'',
      is_superuser = False\<rparr>"

definition eve_row :: User where
  "eve_row =
     \<lparr>user_id = Some 3, created_time = ''2026-03-04 11:00:00'',
      updated_time = ''2026-03-04 11:00:00'', name = ''Eve'', username = ''eve'',
      password = ''$demo$terces'', status = False, description = None,
      is_superuser = False\<rparr>"

definition demo_db :: session where
  "demo_db = [root_row, bob_row, eve_row]"

text \<open>A manager in which the trace \<open>req-7\<close> has been started.\<close>

definition m_one :: MonitoringManager where
  "m_one = snd (start_trace (Some ''req-7'') ''4f0c-a'' ''77d1-b'' 10 MonitoringManager_init)"

section \<open>The retrying request: properties\<close>

lemmas request_loop_unfold = request_loop.simps

declare request_loop.simps [simp del]

lemma request_loop_retry_step:
  assumes "int attempt < retries" and "attempt < 1024" and "retryable (transport attempt)"
  shows "\<exists>last'. request_loop retries transport attempt lastexc slept =
           request_loop retries transport (Suc attempt) last' (slept @ [delay attempt])"
proof (cases "transport attempt")
  case (Inr response)
  with assms show ?thesis
    by (subst request_loop_unfold) (auto simp: backoff_def)
next
  case (Inl e)
  with assms obtain msg where "e = RequestError msg"
    by (cases e) auto
  with Inl assms show ?thesis
    by (subst request_loop_unfold) (auto simp: backoff_def)
qed

lemma request_loop_retries:
  assumes "int (attempt + n) \<le> retries" and "attempt + n \<le> 1024"
    and "\<forall>k. attempt \<le> k \<and> k < attempt + n \<longrightarrow> retryable (transport k)"
  shows "\<exists>last'. request_loop retries transport attempt lastexc slept =
           request_loop retries transport (attempt + n) last'
             (slept @ map delay [attempt ..< attempt + n])"
  using assms
proof (induction n arbitrary: attempt lastexc slept)
  case 0
  then show ?case by auto
next
  case (Suc n)
  have now: "int attempt < retries" "attempt < 1024" "retryable (transport attempt)"
    using Suc.prems by auto
  from now have "\<exists>l. request_loop retries transport attempt lastexc slept =
      request_loop retries transport (Suc attempt) l (slept @ [delay attempt])"
    by (rule request_loop_retry_step)
  then obtain l1 where s1: "request_loop retries transport attempt lastexc slept =
      request_loop retries transport (Suc attempt) l1 (slept @ [delay attempt])"
    by blast
  have rest: "int (Suc attempt + n) \<le> retries" "Suc attempt + n \<le> 1024"
    "\<forall>k. Suc attempt \<le> k \<and> k < Suc attempt + n \<longrightarrow> retryable (transport k)"
    using Suc.prems by auto
  from rest have "\<exists>l. request_loop retries transport (Suc attempt) l1 (slept @ [delay attempt]) =
      request_loop retries transport (Suc attempt + n) l
        ((slept @ [delay attempt]) @ map delay [Suc attempt ..< Suc attempt + n])"
    by (rule Suc.IH)
  then obtain l2 where s2: "request_loop retries transport (Suc attempt) l1 (slept @ [delay attempt]) =
      request_loop retries transport (Suc attempt + n) l2
        ((slept @ [delay attempt]) @ map delay [Suc attempt ..< Suc attempt + n])"
    by blast
  have "[attempt ..< attempt + Suc n] = attempt # [Suc attempt ..< Suc attempt + n]"
    by (simp add: upt_rec)
  with s1 s2 show ?case by auto
qed



lemma request_loop_overflow:
  assumes "1024 < retries" and "retryable (transport 1024)"
  shows "request_loop retries transport 1024 lastexc slept =
           \<lparr>outcome = Inl OverflowError, sleeps = slept, attempts = 1025\<rparr>"
proof (cases "transport 1024")
  case (Inr response)
  with assms show ?thesis
    by (subst request_loop_unfold) (auto simp: backoff_def)
next
  case (Inl e)
  with assms obtain msg where "e = RequestError msg"
    by (cases e) auto
  with Inl assms show ?thesis
    by (subst request_loop_unfold) (auto simp: backoff_def)
qed

text \<open>
  Outside the range of the claim below. A negative retry count makes no attempt and
  raises \<open>RuntimeError\<close>. With more than 1024 retries, when the attempts 0 to 1024 all
  fail in a way that is retried, the delay computation after attempt 1024 overflows:
  the call ends after 1025 attempts with \<open>OverflowError\<close>.
\<close>

lemma request_with_retry_negative:
  assumes "retries < 0"
  shows "request_with_retry retries transport =
           \<lparr>outcome = Inl RuntimeError, sleeps = [], attempts = 0\<rparr>"
  using assms unfolding request_with_retry_def by (subst request_loop_unfold) auto

lemma request_with_retry_overflow:
  assumes "1024 < retries" and "\<forall>k \<le> 1024. retryable (transport k)"
  shows "request_with_retry retries transport =
           \<lparr>outcome = Inl OverflowError, sleeps = map delay [0 ..< 1024], attempts = 1025\<rparr>"
proof -
  have "int (0 + 1024) \<le> retries"
    using assms(1) by simp
  moreover have "(0::nat) + 1024 \<le> 1024"
    by simp
  moreover have "\<forall>k. 0 \<le> k \<and> k < 0 + 1024 \<longrightarrow> retryable (transport k)"
    using assms(2) by simp
  ultimately have "\<exists>l. request_loop retries transport 0 None [] =
      request_loop retries transport (0 + 1024) l ([] @ map delay [0 ..< 0 + 1024])"
    by (rule request_loop_retries)
  then obtain l where "request_loop retries transport 0 None [] =
      request_loop retries transport 1024 l (map delay [0 ..< 1024])"
    by auto
  moreover have "request_loop retries transport 1024 l (map delay [0 ..< 1024]) =
      \<lparr>outcome = Inl OverflowError, sleeps = map delay [0 ..< 1024], attempts = 1025\<rparr>"
    using assms by (intro request_loop_overflow) auto
  ultimately show ?thesis
    by (simp add: request_with_retry_def)
qed



section \<open>The user API: properties\<close>

subsection \<open>Table lookups\<close>

lemma db_get_SomeD: "db_get db i = Some u \<Longrightarrow> u \<in> set db \<and> user_id u = Some i"
  by (auto simp: db_get_def find_Some_iff)

lemma db_get_db_update:
  assumes "db_get db i = Some u" and "user_id u' = Some i"
  shows "db_get (db_update db i u') i = Some u'"
  using assms unfolding db_get_def db_update_def
  by (induction db) (auto split: if_splits)

lemma db_get_db_update_other:
  assumes "j \<noteq> i" and "user_id u' = Some i"
  shows "db_get (db_update db i u') j = db_get db j"
  using assms unfolding db_get_def db_update_def
  by (induction db) auto

lemma first_by_username_None:
  "first_by_username db u = None \<longleftrightarrow> (\<forall>row \<in> set db. username row \<noteq> u)"
  by (auto simp: first_by_username_def find_None_iff)

subsection \<open>The length of a token's life\<close>






subsection \<open>Superusers\<close>

text \<open>
  Claim C2. For a stored user with \<open>is_superuser\<close> set, found under its id, both
  \<open>update\<close> (PUT) and \<open>delete\<close> (DELETE) return the Error envelope with the message
  that the superuser may not be modified, respectively deleted, and the table after the
  call is the table before it: no row changes, none is removed, no timestamp is refreshed.
\<close>

theorem superuser_immutable:
  assumes "db_get db i = Some u" and "is_superuser u"
  shows "update now data i db = (Returns (ErrorResponse Msg_superuser_no_update None None), db)
       \<and> delete i db = (Returns (ErrorResponse Msg_superuser_no_delete None None), db)"
  using assms by (simp add: update_def delete_def)

subsection \<open>Partial update\<close>

text \<open>
  Claim C4. For an existing user \<open>u\<close> that is not a superuser and a request body that
  supplies the name only, \<open>update\<close> succeeds, and the row it writes is \<open>u\<close> with the new
  \<open>name\<close> and the new \<open>updated_time\<close>: \<open>username\<close>, \<open>password\<close>, \<open>status\<close>,
  \<open>description\<close>, \<open>is_superuser\<close>, the id and \<open>created_time\<close> are those of \<open>u\<close>. That row
  is the one found under the id afterwards, every other id finds what it found before,
  and every row with another id is unchanged at its place in the table.
\<close>

theorem update_name_only:
  assumes "db_get db i = Some u" and "\<not> is_superuser u" and "fields_set data = {F_name}"
  shows "\<exists>u'. u' = u\<lparr>name := in_name data, updated_time := str_datetime now\<rparr>
           \<and> update now data i db =
               (Returns (SuccessResponse (User_data (UserOut_model_validate u'))), db_update db i u')
           \<and> db_get (db_update db i u') i = Some u'
           \<and> (\<forall>j. j \<noteq> i \<longrightarrow> db_get (db_update db i u') j = db_get db j)
           \<and> length (db_update db i u') = length db
           \<and> (\<forall>k < length db. user_id (db ! k) \<noteq> Some i \<longrightarrow> db_update db i u' ! k = db ! k)"
proof -
  let ?u' = "u\<lparr>name := in_name data, updated_time := str_datetime now\<rparr>"
  have id: "user_id ?u' = Some i"
    using db_get_SomeD [OF assms(1)] by simp
  have upd: "sqlmodel_update u data = u\<lparr>name := in_name data\<rparr>"
    using assms(3) by (simp add: sqlmodel_update_def)
  have "update now data i db =
      (Returns (SuccessResponse (User_data (UserOut_model_validate ?u'))), db_update db i ?u')"
    using assms(1,2) upd by (simp add: update_def Let_def)
  moreover have "db_get (db_update db i ?u') i = Some ?u'"
    using assms(1) id by (rule db_get_db_update)
  moreover have "\<forall>j. j \<noteq> i \<longrightarrow> db_get (db_update db i ?u') j = db_get db j"
    using id by (simp add: db_get_db_update_other)
  moreover have "length (db_update db i ?u') = length db"
    by (simp add: db_update_def)
  moreover have "\<forall>k < length db. user_id (db ! k) \<noteq> Some i \<longrightarrow> db_update db i ?u' ! k = db ! k"
    by (simp add: db_update_def)
  ultimately show ?thesis by blast
qed

subsection \<open>Login\<close>

text \<open>
  Claim C5. When no stored user has the submitted username, \<open>login\<close> returns the Error
  envelope "user not found"; when the user found under the username has \<open>status\<close>
  false, it returns the Error envelope "user disabled". In both cases no token is
  created. Neither depends on the security functions, so it holds also when the
  password would verify.
\<close>

theorem login_refuses_unknown_or_disabled:
  "((\<forall>row \<in> set db. username row \<noteq> form_username) \<longrightarrow>
      login sec settings now referer form_username form_password db =
        (Returns (ErrorResponse Msg_user_not_found None None), []))
   \<and> (\<forall>u. first_by_username db form_username = Some u \<and> \<not> status u \<longrightarrow>
      login sec settings now referer form_username form_password db =
        (Returns (ErrorResponse Msg_user_disabled None None), []))"
  by (simp add: login_def first_by_username_None [symmetric])


subsection \<open>Creating a user\<close>


subsection \<open>The claims above at the example data\<close>

lemmas demo_rows = demo_db_def root_row_def bob_row_def eve_row_def

theorem superuser_immutable_witness:
  "db_get demo_db 1 = Some root_row \<and> is_superuser root_row
   \<and> update t0 \<lparr>in_name = ''Mallory'', in_username = ''root'', in_password = ''x'',
                 in_status = False, in_description = None,
                 fields_set = {F_name, F_username, F_password, F_status}\<rparr> 1 demo_db
       = (Returns (ErrorResponse Msg_superuser_no_update None None), demo_db)
   \<and> delete 1 demo_db = (Returns (ErrorResponse Msg_superuser_no_delete None None), demo_db)"
proof -
  have g: "db_get demo_db 1 = Some root_row"
    by (simp add: db_get_def demo_rows)
  have s: "is_superuser root_row"
    by (simp add: root_row_def)
  from g s superuser_immutable [OF g s] show ?thesis by simp
qed

theorem update_name_only_witness:
  "db_get demo_db 2 = Some bob_row \<and> \<not> is_superuser bob_row
   \<and> update t0 \<lparr>in_name = ''Robert'', in_username = [], in_password = [], in_status = True,
                 in_description = None, fields_set = {F_name}\<rparr> 2 demo_db
       = (Returns (SuccessResponse (User_data (UserOut_model_validate
            (bob_row\<lparr>name := ''Robert'', updated_time := ''2026-11-04 16:39:12.123456''\<rparr>)))),
          [root_row,
           bob_row\<lparr>name := ''Robert'', updated_time := ''2026-11-04 16:39:12.123456''\<rparr>,
           eve_row])"
proof -
  let ?data = "\<lparr>in_name = ''Robert'', in_username = [], in_password = [], in_status = True,
                 in_description = None, fields_set = {F_name}\<rparr>"
  have g: "db_get demo_db 2 = Some bob_row"
    by (simp add: db_get_def demo_rows)
  have s: "\<not> is_superuser bob_row"
    by (simp add: bob_row_def)
  have f: "fields_set ?data = {F_name}"
    by simp
  have t: "str_datetime t0 = ''2026-11-04 16:39:12.123456''"
    by (simp add: t0_def str_datetime_def zfill_def digit_char_def)
  have d: "db_update demo_db 2 (bob_row\<lparr>name := ''Robert'', updated_time := ''2026-11-04 16:39:12.123456''\<rparr>)
      = [root_row, bob_row\<lparr>name := ''Robert'', updated_time := ''2026-11-04 16:39:12.123456''\<rparr>, eve_row]"
    by (simp add: db_update_def demo_rows)
  from update_name_only [OF g s f, of t0] g s t d show ?thesis
    by simp
qed

theorem login_refuses_unknown_or_disabled_witness:
  "''nobody'' \<notin> set (map username demo_db)
   \<and> login demo_security default_settings t0 None ''nobody'' ''hunter2'' demo_db =
       (Returns (ErrorResponse Msg_user_not_found None None), [])
   \<and> first_by_username demo_db ''eve'' = Some eve_row \<and> \<not> status eve_row
   \<and> verify_password demo_security ''secret'' (password eve_row) = Inr True
   \<and> login demo_security default_settings t0 None ''eve'' ''secret'' demo_db =
       (Returns (ErrorResponse Msg_user_disabled None None), [])"
proof -
  have n: "\<forall>row \<in> set demo_db. username row \<noteq> ''nobody''"
    by (simp add: demo_rows)
  have e: "first_by_username demo_db ''eve'' = Some eve_row \<and> \<not> status eve_row"
    by (simp add: first_by_username_def demo_rows)
  have v: "verify_password demo_security ''secret'' (password eve_row) = Inr True"
    by (simp add: demo_security_def eve_row_def)
  have n': "''nobody'' \<notin> set (map username demo_db)"
    by (simp add: demo_rows)
  from login_refuses_unknown_or_disabled
         [of demo_db "''nobody''" demo_security default_settings t0 None "''hunter2''"]
       login_refuses_unknown_or_disabled
         [of demo_db "''eve''" demo_security default_settings t0 None "''secret''"]
       n n' e v
  show ?thesis by blast
qed





section \<open>Timestamps and stored passwords: properties\<close>

subsection \<open>The two renderings of a clock reading\<close>

declare digits.simps [simp del]

lemma is_digit_digit_char: "d < 10 \<Longrightarrow> is_digit (digit_char d)"
proof -
  assume "d < 10"
  then have "d \<in> {0, 1, 2, 3, 4, 5, 6, 7, 8, 9}"
    by auto
  then show ?thesis
    by (auto simp: digit_char_def is_digit_def)
qed

lemma digits_one: "n < 10 \<Longrightarrow> digits n = [digit_char n]"
  by (subst digits.simps) simp

lemma digits_snoc: "10 \<le> n \<Longrightarrow> digits n = digits (n div 10) @ [digit_char (n mod 10)]"
  by (subst digits.simps) simp

lemma length_digits_pos: "0 < length (digits n)"
  by (subst digits.simps) simp

lemma zfill_two:
  assumes "0 \<le> n" and "n < 100"
  shows "zfill 2 n = [digit_char (nat n div 10), digit_char (nat n mod 10)]"
proof (cases "nat n < 10")
  case True
  then show ?thesis
    by (simp add: zfill_def digits_one digit_char_def)
next
  case False
  then have "10 \<le> nat n" and "nat n div 10 < 10"
    using assms by auto
  then show ?thesis
    by (simp add: zfill_def digits_snoc digits_one)
qed

lemma zfill_four:
  assumes "1000 \<le> n" and "n \<le> 9999"
  shows "zfill 4 n = [digit_char (nat n div 1000), digit_char (nat n div 100 mod 10),
                     digit_char (nat n div 10 mod 10), digit_char (nat n mod 10)]"
proof -
  let ?k = "nat n"
  have k: "1000 \<le> ?k" "?k \<le> 9999"
    using assms by auto
  have e: "?k div 10 div 10 = ?k div 100" "?k div 100 div 10 = ?k div 1000"
    by (simp_all add: div_mult2_eq [symmetric])
  have a: "digits ?k = digits (?k div 10) @ [digit_char (?k mod 10)]"
    using k by (intro digits_snoc) simp
  have "digits (?k div 10) = digits (?k div 10 div 10) @ [digit_char (?k div 10 mod 10)]"
    using k by (intro digits_snoc) simp
  then have b: "digits (?k div 10) = digits (?k div 100) @ [digit_char (?k div 10 mod 10)]"
    by (simp only: e)
  have "digits (?k div 100) = digits (?k div 100 div 10) @ [digit_char (?k div 100 mod 10)]"
    using k by (intro digits_snoc) simp
  then have c: "digits (?k div 100) = digits (?k div 1000) @ [digit_char (?k div 100 mod 10)]"
    by (simp only: e)
  have d: "digits (?k div 1000) = [digit_char (?k div 1000)]"
    using k by (intro digits_one) simp
  show ?thesis
    by (simp add: zfill_def Let_def a b c d)
qed

lemma length_zfill: "w \<le> length (zfill w n)"
  by (simp add: zfill_def Let_def)

lemma matches_pattern_length: "matches_pattern p s \<Longrightarrow> length s = length p"
  by (induction p s rule: matches_pattern.induct) auto

lemma is_timestamp_length: "is_timestamp s \<Longrightarrow> length s = 19"
  unfolding is_timestamp_def by (drule matches_pattern_length) simp

lemma tens_digit: "0 \<le> n \<Longrightarrow> n < 100 \<Longrightarrow> nat n div 10 < 10"
  by (simp add: div_less_iff_less_mult)

lemma days_in_month_le:
  assumes "1 \<le> m" and "m \<le> 12"
  shows "days_in_month y m \<le> 31"
proof -
  from assms have "m \<in> {1, 2, 3, 4, 5, 6, 7, 8, 9, 10, 11, 12}"
    by (simp only: insert_iff empty_iff) arith
  then show ?thesis
    by (auto simp: days_in_month_def DAYS_IN_MONTH_def)
qed

lemma strftime_default_is_timestamp:
  assumes "valid_datetime dt" and "1000 \<le> year dt"
  shows "is_timestamp (strftime_default dt)"
proof -
  have v: "year dt \<le> 9999" "1 \<le> month dt" "month dt \<le> 12" "1 \<le> day dt"
    "day dt \<le> days_in_month (year dt) (month dt)" "0 \<le> hour dt" "hour dt < 24"
    "0 \<le> minute dt" "minute dt < 60" "0 \<le> second dt" "second dt < 60"
    using assms(1) unfolding valid_datetime_def by blast+
  have dim: "day dt \<le> 31"
    using v(5) days_in_month_le [OF v(2,3), of "year dt"] by linarith
  have r: "0 \<le> month dt" "month dt < 100" "0 \<le> day dt" "day dt < 100"
    "hour dt < 100" "minute dt < 100" "second dt < 100"
    using v dim by linarith+
  have y: "zfill 4 (year dt) = [digit_char (nat (year dt) div 1000),
      digit_char (nat (year dt) div 100 mod 10), digit_char (nat (year dt) div 10 mod 10),
      digit_char (nat (year dt) mod 10)]"
    using assms(2) v(1) by (rule zfill_four)
  have "nat (year dt) < 10 * 1000"
    using v(1) by linarith
  then have y1: "nat (year dt) div 1000 < 10"
    by (simp add: div_less_iff_less_mult)
  note z = zfill_two [OF r(1,2)] zfill_two [OF r(3,4)] zfill_two [OF v(6) r(5)]
    zfill_two [OF v(8) r(6)] zfill_two [OF v(10) r(7)]
  note t = tens_digit [OF r(1,2)] tens_digit [OF r(3,4)] tens_digit [OF v(6) r(5)]
    tens_digit [OF v(8) r(6)] tens_digit [OF v(10) r(7)]
  show ?thesis
    unfolding is_timestamp_def strftime_default_def y z
    using y1 t by (simp add: is_digit_digit_char)
qed

lemma length_str_datetime_microseconds:
  assumes "microsecond dt \<noteq> 0"
  shows "26 \<le> length (str_datetime dt)"
proof -
  have "4 \<le> length (zfill 4 (year dt))" "2 \<le> length (zfill 2 (month dt))"
    "2 \<le> length (zfill 2 (day dt))" "2 \<le> length (zfill 2 (hour dt))"
    "2 \<le> length (zfill 2 (minute dt))" "2 \<le> length (zfill 2 (second dt))"
    "6 \<le> length (zfill 6 (microsecond dt))"
    by (rule length_zfill)+
  with assms show ?thesis
    by (simp add: str_datetime_def)
qed

lemma str_datetime_not_timestamp:
  assumes "microsecond dt \<noteq> 0"
  shows "\<not> is_timestamp (str_datetime dt)"
  using length_str_datetime_microseconds [OF assms] is_timestamp_length by fastforce

subsection \<open>What \<open>update\<close> stores\<close>

lemma update_updated_time:
  assumes "db_get db i = Some u" and "\<not> is_superuser u"
  shows "\<exists>u'. db_get (snd (update now data i db)) i = Some u' \<and> updated_time u' = str_datetime now"
proof -
  let ?u' = "(sqlmodel_update u data)\<lparr>updated_time := str_datetime now\<rparr>"
  have "user_id ?u' = Some i"
    using db_get_SomeD [OF assms(1)] by (simp add: sqlmodel_update_def)
  with assms(1) have "db_get (db_update db i ?u') i = Some ?u'"
    by (rule db_get_db_update)
  moreover have "snd (update now data i db) = db_update db i ?u'"
    using assms by (simp add: update_def Let_def)
  ultimately show ?thesis by simp
qed

lemma update_password_verbatim:
  assumes "db_get db i = Some u" and "\<not> is_superuser u" and "F_password \<in> fields_set data"
  shows "\<exists>u'. db_get (snd (update now data i db)) i = Some u' \<and> password u' = in_password data"
proof -
  let ?u' = "(sqlmodel_update u data)\<lparr>updated_time := str_datetime now\<rparr>"
  have "user_id ?u' = Some i"
    using db_get_SomeD [OF assms(1)] by (simp add: sqlmodel_update_def)
  with assms(1) have "db_get (db_update db i ?u') i = Some ?u'"
    by (rule db_get_db_update)
  moreover have "snd (update now data i db) = db_update db i ?u'"
    using assms by (simp add: update_def Let_def)
  moreover have "password ?u' = in_password data"
    using assms(3) by (simp add: sqlmodel_update_def)
  ultimately show ?thesis by simp
qed

text \<open>
  Claim C1. \<open>create\<close> stores what \<open>set_password_hash\<close> returns for the submitted
  password, but \<open>update\<close> never calls it: a PUT whose body carries a password stores
  that password as it was submitted (lemma \<open>update_password_verbatim\<close>).
  At the example data, a PUT for user 2 with the password \<open>hunter3\<close> leaves \<open>hunter3\<close>
  in the password column, not the hash that \<open>set_password_hash\<close> returns for it.
\<close>

theorem update_stores_password_as_given:
  "map password (snd (update t0
      \<lparr>in_name = ''Bob'', in_username = ''bob'', in_password = ''hunter3'', in_status = True,
       in_description = None, fields_set = {F_name, F_username, F_password}\<rparr> 2 demo_db)) =
     [''$demo$toor'', ''hunter3'', ''$demo$terces'']
   \<and> set_password_hash demo_security ''hunter3'' = Inr ''$demo$3retnuh''"
  by (simp add: update_def db_get_def db_update_def sqlmodel_update_def demo_rows
      demo_security_def Let_def)

text \<open>
  Claim C8. The defaults of \<open>created_time\<close> and \<open>updated_time\<close> have the format
  \<open>YYYY-MM-DD HH:MM:SS\<close> (lemma \<open>strftime_default_is_timestamp\<close>), but \<open>update\<close> writes
  \<open>str(datetime.now())\<close>, which has the microseconds appended whenever they are not
  zero (lemmas \<open>update_updated_time\<close>, \<open>str_datetime_not_timestamp\<close>). At the example
  data, a PUT for user 2 at 16:39:12.123456 leaves an \<open>updated_time\<close> of 26 characters,
  which is not of the format, while the default rendering of the same reading is.
\<close>

theorem update_writes_microseconds:
  "map updated_time (snd (update t0
      \<lparr>in_name = ''Robert'', in_username = [], in_password = [], in_status = True,
       in_description = None, fields_set = {F_name}\<rparr> 2 demo_db)) =
     [''2026-01-01 00:00:00'', ''2026-11-04 16:39:12.123456'', ''2026-03-04 11:00:00'']
   \<and> \<not> is_timestamp ''2026-11-04 16:39:12.123456''
   \<and> is_timestamp (strftime_default t0)"
  by (simp add: update_def db_get_def db_update_def sqlmodel_update_def demo_rows Let_def
      t0_def str_datetime_def strftime_default_def zfill_def digits.simps digit_char_def
      is_timestamp_def is_digit_def)

section \<open>The catch-all handler: properties\<close>

text \<open>
  Claim C9. Whatever exception reaches the catch-all handler, with whatever request, the
  response is the Except envelope with the generic internal-server-error message and
  status 500; so the responses for any two exceptions are equal. The text of the
  exception goes to the log only (lemma \<open>general_exception_handler_logs\<close>).
\<close>

theorem general_exception_handler_generic:
  "fst (general_exception_handler req exc) = ExceptResponse Msg_internal_server_error (Some 500)
   \<and> fst (general_exception_handler req exc) = fst (general_exception_handler req' exc')"
  by (simp add: general_exception_handler_def)

lemma general_exception_handler_logs:
  "map log_message (snd (general_exception_handler req exc)) = [Log_unhandled_exception (exc_str exc)]"
  by (simp add: general_exception_handler_def)

section \<open>Trace bookkeeping: properties\<close>

lemma wf_manager_init: "wf_manager MonitoringManager_init"
  by (simp add: wf_manager_def MonitoringManager_init_def)

lemma wf_manager_start_trace:
  assumes "wf_manager m" and "fresh_trace \<noteq> []"
  shows "wf_manager (snd (start_trace tid fresh_trace fresh_span now m))"
  using assms
  by (auto simp: wf_manager_def start_trace_def MonitoringContext_init_def Let_def
      nth_append less_Suc_eq split: option.splits if_splits)

lemma wf_manager_end_trace:
  assumes "wf_manager m" and "a < length (contexts m)"
  shows "wf_manager (end_trace a now m)"
  using assms
  by (auto simp: wf_manager_def end_trace_def Let_def finish_def nth_list_update)

lemma wf_manager_set_tag:
  assumes "wf_manager m"
  shows "wf_manager (set_tag a k v m)"
  unfolding wf_manager_def
proof (intro allI impI)
  fix t b
  assume "active_traces (set_tag a k v m) t = Some b"
  then have "active_traces m t = Some b"
    by (simp add: set_tag_def)
  with assms have "t \<noteq> []" and "b < length (contexts m)"
    and "trace_id (contexts m ! b) = t"
    by (auto simp: wf_manager_def)
  then show "t \<noteq> [] \<and> b < length (contexts (set_tag a k v m)) \<and>
      trace_id (contexts (set_tag a k v m) ! b) = t"
    by (cases "b = a") (simp_all add: set_tag_def)
qed

lemma wf_manager_log_entry:
  assumes "wf_manager m"
  shows "wf_manager (log_entry a now msg kwargs m)"
  unfolding wf_manager_def
proof (intro allI impI)
  fix t b
  assume "active_traces (log_entry a now msg kwargs m) t = Some b"
  then have "active_traces m t = Some b"
    by (simp add: log_entry_def)
  with assms have "t \<noteq> []" and "b < length (contexts m)"
    and "trace_id (contexts m ! b) = t"
    by (auto simp: wf_manager_def)
  then show "t \<noteq> [] \<and> b < length (contexts (log_entry a now msg kwargs m)) \<and>
      trace_id (contexts (log_entry a now msg kwargs m) ! b) = t"
    by (cases "b = a") (simp_all add: log_entry_def)
qed

text \<open>
  Claim C10. In a well-formed manager, \<open>start_trace\<close> with a trace id that is already
  in the table creates a new context at a new address and stores it under the trace id
  in place of the earlier one. The earlier context is left as it was (it is not
  finished: its \<open>end_time\<close> and \<open>duration\<close> are untouched), no entry of the table
  points to it any more, the other entries are unchanged, and no summary is logged.
\<close>

theorem start_trace_replaces_unfinished:
  assumes "wf_manager m" and "active_traces m tid = Some old"
  shows "\<exists>new m'. start_trace (Some tid) fresh_trace fresh_span now m = (new, m')
           \<and> new \<noteq> old
           \<and> active_traces m' tid = Some new
           \<and> contexts m' ! new =
               \<lparr>trace_id = tid, span_id = fresh_span, start_time = now, end_time = None,
                duration = None, tags = Map.empty, logs = []\<rparr>
           \<and> contexts m' ! old = contexts m ! old
           \<and> old \<notin> ran (active_traces m')
           \<and> (\<forall>t. t \<noteq> tid \<longrightarrow> active_traces m' t = active_traces m t)
           \<and> summaries m' = summaries m"
proof -
  let ?new = "length (contexts m)"
  let ?c = "\<lparr>trace_id = tid, span_id = fresh_span, start_time = now, end_time = None,
                duration = None, tags = Map.empty, logs = []\<rparr>"
  let ?m' = "m\<lparr>contexts := contexts m @ [?c], active_traces := (active_traces m)(tid \<mapsto> ?new)\<rparr>"
  have old: "tid \<noteq> []" "old < length (contexts m)" "trace_id (contexts m ! old) = tid"
    using assms by (auto simp: wf_manager_def)
  have run: "start_trace (Some tid) fresh_trace fresh_span now m = (?new, ?m')"
    using old(1) by (simp add: start_trace_def MonitoringContext_init_def Let_def)
  have "old \<notin> ran (active_traces ?m')"
  proof
    assume "old \<in> ran (active_traces ?m')"
    then obtain t where t: "active_traces ?m' t = Some old"
      by (auto simp: ran_def)
    show False
    proof (cases "t = tid")
      case True
      with t old(2) show False by simp
    next
      case False
      with t have "active_traces m t = Some old" by simp
      with assms(1) have "trace_id (contexts m ! old) = t"
        by (auto simp: wf_manager_def)
      with old(3) False show False by simp
    qed
  qed
  moreover have "?new \<noteq> old"
    using old(2) by simp
  moreover have "contexts ?m' ! old = contexts m ! old"
    using old(2) by (simp add: nth_append)
  ultimately show ?thesis
    using run by simp
qed

theorem start_trace_replaces_unfinished_witness:
  "wf_manager m_one \<and> active_traces m_one ''req-7'' = Some 0
   \<and> fst (start_trace (Some ''req-7'') ''9e2b-c'' ''31aa-d'' 12 m_one) = 1
   \<and> active_traces (snd (start_trace (Some ''req-7'') ''9e2b-c'' ''31aa-d'' 12 m_one)) ''req-7''
       = Some 1
   \<and> contexts (snd (start_trace (Some ''req-7'') ''9e2b-c'' ''31aa-d'' 12 m_one)) ! 0
       = \<lparr>trace_id = ''req-7'', span_id = ''77d1-b'', start_time = 10, end_time = None,
          duration = None, tags = Map.empty, logs = []\<rparr>
   \<and> summaries (snd (start_trace (Some ''req-7'') ''9e2b-c'' ''31aa-d'' 12 m_one)) = []"
proof -
  have w: "wf_manager m_one"
    unfolding m_one_def by (intro wf_manager_start_trace wf_manager_init) simp
  have a: "active_traces m_one ''req-7'' = Some 0"
    by (simp add: m_one_def start_trace_def MonitoringContext_init_def
        MonitoringManager_init_def Let_def)
  have c: "contexts m_one = [\<lparr>trace_id = ''req-7'', span_id = ''77d1-b'', start_time = 10,
      end_time = None, duration = None, tags = Map.empty, logs = []\<rparr>]"
    "summaries m_one = []"
    by (simp_all add: m_one_def start_trace_def MonitoringContext_init_def
        MonitoringManager_init_def Let_def)
  from start_trace_replaces_unfinished [OF w a, of "''9e2b-c''" "''31aa-d''" 12]
  obtain new m' where r: "start_trace (Some ''req-7'') ''9e2b-c'' ''31aa-d'' 12 m_one = (new, m')"
    and p: "new \<noteq> 0" "active_traces m' ''req-7'' = Some new"
      "contexts m' ! 0 = contexts m_one ! 0" "summaries m' = summaries m_one"
    by blast
  have "new = 1"
    using r c by (simp add: start_trace_def Let_def)
  with w a r p c show ?thesis by simp
qed

end
